theory Spec2Isabelle
  imports Main "HOL-Library.Word"
begin

unbundle bit_operations_syntax

section \<open>C library functions called by bot.c\<close>

text \<open>
  A C string is modelled by its bytes before the terminating NUL, as a \<open>string\<close>
  (a list of 8-bit characters). The functions below are the C-locale library functions
  the bot calls, restricted to what \<^verbatim>\<open>bot.c\<close> uses of them.
\<close>

definition isdigit :: "char \<Rightarrow> bool" where
  "isdigit c \<longleftrightarrow> c \<in> set ''0123456789''"

definition isspace :: "char \<Rightarrow> bool" where
  "isspace c \<longleftrightarrow> c \<in> {CHR '' '', CHR 0x09, CHR 0x0A, CHR 0x0B, CHR 0x0C, CHR 0x0D}"

definition tolower :: "char \<Rightarrow> char" where
  "tolower c = (if c \<in> set ''ABCDEFGHIJKLMNOPQRSTUVWXYZ''
                then char_of (of_char c + (32 :: nat)) else c)"

text \<open>\<^verbatim>\<open>strcasecmp(a, b) == 0\<close> and \<^verbatim>\<open>strncasecmp(a, b, n) == 0\<close>.\<close>

definition strcasecmp_eq :: "string \<Rightarrow> string \<Rightarrow> bool" where
  "strcasecmp_eq a b \<longleftrightarrow> map tolower a = map tolower b"

definition strncasecmp_eq :: "string \<Rightarrow> string \<Rightarrow> nat \<Rightarrow> bool" where
  "strncasecmp_eq a b n \<longleftrightarrow> map tolower (take n a) = map tolower (take n b)"

text \<open>The value of a decimal digit character.\<close>

definition digit_val :: "char \<Rightarrow> int" where
  "digit_val c = of_char c - 48"

text \<open>The digit loop of \<^verbatim>\<open>strtol\<close>: accumulate while the next byte is a digit.\<close>

fun parse_digits :: "int \<Rightarrow> string \<Rightarrow> int" where
  "parse_digits acc [] = acc"
| "parse_digits acc (c # cs) =
     (if isdigit c then parse_digits (acc * 10 + digit_val c) cs else acc)"

text \<open>
  \<^verbatim>\<open>strtol(s, NULL, 10)\<close> for a signed type of \<open>w\<close> bits: skip white space, take an
  optional sign, read the digits, and saturate at the ends of the range. With no digits
  the result is 0.
\<close>

definition strtol_w :: "nat \<Rightarrow> string \<Rightarrow> int" where
  "strtol_w w s =
     (let s1 = dropWhile isspace s;
          neg = (s1 \<noteq> [] \<and> hd s1 = CHR ''-'');
          s2 = (if s1 \<noteq> [] \<and> (hd s1 = CHR ''-'' \<or> hd s1 = CHR ''+'') then tl s1 else s1);
          v = parse_digits 0 s2;
          v' = (if neg then - v else v)
      in max (- (2 ^ (w - 1))) (min (2 ^ (w - 1) - 1) v'))"

definition strtoll :: "string \<Rightarrow> int" where
  "strtoll s = strtol_w 64 s"

text \<open>
  \<^verbatim>\<open>atoi(s)\<close> is \<^verbatim>\<open>(int) strtol(s, NULL, 10)\<close> on both platforms the bot
  supports (glibc and the macOS C library, 64-bit \<^verbatim>\<open>long\<close>, 32-bit \<^verbatim>\<open>int\<close>):
  the saturated \<^verbatim>\<open>long\<close> is cut to its low 32 bits, read as two's complement.
\<close>

definition atoi :: "string \<Rightarrow> int" where
  "atoi s = sint (word_of_int (strtol_w 64 s) :: 32 word)"

text \<open>\<^verbatim>\<open>printf("%lu")\<close>, \<^verbatim>\<open>printf("%d")\<close> and \<^verbatim>\<open>printf("%lld")\<close>.\<close>

definition digit_char :: "nat \<Rightarrow> char" where
  "digit_char d = char_of (48 + d)"

fun show_nat :: "nat \<Rightarrow> string" where
  "show_nat n = (if n < 10 then [digit_char n]
                 else show_nat (n div 10) @ [digit_char (n mod 10)])"

declare show_nat.simps [simp del]

definition show_int :: "int \<Rightarrow> string" where
  "show_int i = (if i < 0 then CHR ''-'' # show_nat (nat (- i)) else show_nat (nat i))"

section \<open>Platform interface (platform.h)\<close>

type_synonym PlatWinID = nat
type_synonym pid_t = int

abbreviation (input) MOD_CTRL :: int where "MOD_CTRL \<equiv> 1"
abbreviation (input) MOD_ALT :: int where "MOD_ALT \<equiv> 2"
abbreviation (input) MOD_CMD :: int where "MOD_CMD \<equiv> 4"

abbreviation (input) PLAT_KEY_CHAR :: int where "PLAT_KEY_CHAR \<equiv> 0"
abbreviation (input) PLAT_KEY_RETURN :: int where "PLAT_KEY_RETURN \<equiv> 1"
abbreviation (input) PLAT_KEY_TAB :: int where "PLAT_KEY_TAB \<equiv> 2"
abbreviation (input) PLAT_KEY_ESCAPE :: int where "PLAT_KEY_ESCAPE \<equiv> 3"

record WinInfo =
  window_id :: PlatWinID
  pid :: pid_t
  owner :: string
  title :: string

section \<open>Effects\<close>

text \<open>
  Every call that acts on the outside world is recorded, in order, as an \<open>action\<close>:
  the messaging calls of botlib, the platform calls that raise a window, capture it or
  send a key, console output and the pauses.
\<close>

datatype action =
    Printf string
  | BotSendMessage int string
  | BotSendImageWithKeyboard int string string string
  | BotEditMessageMedia int int string string string
  | BotAnswerCallbackQuery string
  | PlatRaiseWindow pid_t PlatWinID
  | PlatCaptureWindow PlatWinID string
  | PlatSendKey pid_t int int int
  | Usleep nat
  | Sleep nat

text \<open>A reply is anything sent to the messaging gateway.\<close>

fun is_reply :: "action \<Rightarrow> bool" where
  "is_reply (BotSendMessage _ _) = True"
| "is_reply (BotSendImageWithKeyboard _ _ _ _) = True"
| "is_reply (BotEditMessageMedia _ _ _ _ _) = True"
| "is_reply (BotAnswerCallbackQuery _) = True"
| "is_reply _ = False"

fun is_send_key :: "action \<Rightarrow> bool" where
  "is_send_key (PlatSendKey _ _ _ _) = True"
| "is_send_key _ = False"

section \<open>UTF-8 emoji parsing\<close>

text \<open>
  Each matcher takes the bytes from \<^verbatim>\<open>p\<close> on; \<^verbatim>\<open>remaining\<close> is their number.
\<close>

definition match_red_heart :: "string \<Rightarrow> nat" where
  "match_red_heart p =
     (if length p \<ge> 3 \<and> p ! 0 = CHR 0xE2 \<and> p ! 1 = CHR 0x9D \<and> p ! 2 = CHR 0xA4 then
        (if length p \<ge> 6 \<and> p ! 3 = CHR 0xEF \<and> p ! 4 = CHR 0xB8 \<and> p ! 5 = CHR 0x8F
         then 6 else 3)
      else 0)"

text \<open>The second component is the value stored through \<^verbatim>\<open>heart\<close> on a match.\<close>

definition match_colored_heart :: "string \<Rightarrow> nat \<times> char" where
  "match_colored_heart p =
     (if length p \<ge> 4 \<and> p ! 0 = CHR 0xF0 \<and> p ! 1 = CHR 0x9F \<and> p ! 2 = CHR 0x92 then
        (if p ! 3 = CHR 0x99 then (4, CHR ''B'')
         else if p ! 3 = CHR 0x9A then (4, CHR ''G'')
         else if p ! 3 = CHR 0x9B then (4, CHR ''Y'')
         else (0, CHR 0x00))
      else (0, CHR 0x00))"

definition match_orange_heart :: "string \<Rightarrow> nat" where
  "match_orange_heart p =
     (if length p \<ge> 4 \<and> p ! 0 = CHR 0xF0 \<and> p ! 1 = CHR 0x9F \<and> p ! 2 = CHR 0xA7
         \<and> p ! 3 = CHR 0xA1 then 4 else 0)"

definition match_purple_heart :: "string \<Rightarrow> nat" where
  "match_purple_heart p =
     (if length p \<ge> 4 \<and> p ! 0 = CHR 0xF0 \<and> p ! 1 = CHR 0x9F \<and> p ! 2 = CHR 0x92
         \<and> p ! 3 = CHR 0x9C then 4 else 0)"

definition ends_with_purple_heart :: "string \<Rightarrow> bool" where
  "ends_with_purple_heart text =
     (length text \<ge> 4 \<and> match_purple_heart (take 4 (drop (length text - 4) text)) > 0)"

section \<open>Keystroke sending\<close>

text \<open>
  The local variables of \<^verbatim>\<open>send_keys\<close>, and the keys sent so far. \<^verbatim>\<open>keycount\<close> is a C
  \<^verbatim>\<open>int\<close> that counts one per key; only a text of more than \<open>2^31\<close> bytes could
  overflow it, so it is an unbounded integer here.
\<close>

record scan =
  mods :: int
  keycount :: int
  had_mods :: bool
  last_was_nl :: bool
  sent :: "action list"

text \<open>One \<^verbatim>\<open>plat_send_key\<close> call with the pending modifiers, as the four emitting
  branches other than the yellow heart make it.\<close>

definition emit :: "pid_t \<Rightarrow> int \<Rightarrow> int \<Rightarrow> bool \<Rightarrow> scan \<Rightarrow> scan" where
  "emit cpid special ch nl s =
     s\<lparr>sent := sent s @ [PlatSendKey cpid special ch (mods s)],
       had_mods := (had_mods s \<or> mods s \<noteq> 0),
       keycount := keycount s + 1,
       last_was_nl := nl,
       mods := 0\<rparr>"

text \<open>The yellow heart: Escape is sent with modifier argument 0.\<close>

definition emit_escape :: "pid_t \<Rightarrow> scan \<Rightarrow> scan" where
  "emit_escape cpid s =
     s\<lparr>sent := sent s @ [PlatSendKey cpid PLAT_KEY_ESCAPE 0 0],
       keycount := keycount s + 1,
       had_mods := True,
       last_was_nl := False,
       mods := 0\<rparr>"

text \<open>The \<^verbatim>\<open>while (len > 0)\<close> loop of \<^verbatim>\<open>send_keys\<close>.\<close>

function scan_keys :: "pid_t \<Rightarrow> string \<Rightarrow> scan \<Rightarrow> scan" where
  "scan_keys cpid p s =
     (if p = [] then s
      else if match_red_heart p > 0 then
        scan_keys cpid (drop (match_red_heart p) p) (s\<lparr>mods := mods s OR MOD_CTRL\<rparr>)
      else if match_orange_heart p > 0 then
        scan_keys cpid (drop (match_orange_heart p) p) (emit cpid PLAT_KEY_RETURN 0 True s)
      else if fst (match_colored_heart p) > 0 then
        scan_keys cpid (drop (fst (match_colored_heart p)) p)
          (if snd (match_colored_heart p) = CHR ''Y'' then emit_escape cpid s
           else if snd (match_colored_heart p) = CHR ''B'' then s\<lparr>mods := mods s OR MOD_ALT\<rparr>
           else if snd (match_colored_heart p) = CHR ''G'' then s\<lparr>mods := mods s OR MOD_CMD\<rparr>
           else s)
      else if hd p = CHR 0x5C \<and> length p > 1 \<and> p ! 1 = CHR ''n'' then
        scan_keys cpid (drop 2 p) (emit cpid PLAT_KEY_RETURN 0 True (s\<lparr>last_was_nl := False\<rparr>))
      else if hd p = CHR 0x5C \<and> length p > 1 \<and> p ! 1 = CHR ''t'' then
        scan_keys cpid (drop 2 p) (emit cpid PLAT_KEY_TAB 0 False (s\<lparr>last_was_nl := False\<rparr>))
      else if hd p = CHR 0x5C \<and> length p > 1 \<and> p ! 1 = CHR 0x5C then
        scan_keys cpid (drop 2 p) (emit cpid PLAT_KEY_CHAR 0x5C False (s\<lparr>last_was_nl := False\<rparr>))
      else
        scan_keys cpid (drop 1 p) (emit cpid PLAT_KEY_CHAR (of_char (hd p)) False (s\<lparr>last_was_nl := False\<rparr>)))"
  by pat_completeness auto
termination
  by (relation "measure (\<lambda>(cpid, p, s). length p)") auto

declare scan_keys.simps [simp del]


section \<open>Global state, requests and the outside world\<close>

text \<open>
  Modelled from the spec: the key-value store of botlib (\<^verbatim>\<open>kvGet\<close>, \<^verbatim>\<open>kvSet\<close>), whose
  source is not part of the files at hand. Its contract is \<open>Get(key) -> optional string\<close>
  and \<open>Set(key, value)\<close>.
\<close>

type_synonym kvstore = "string \<rightharpoonup> string"

definition kvGet :: "kvstore \<Rightarrow> string \<Rightarrow> string option" where
  "kvGet d k = d k"

definition kvSet :: "kvstore \<Rightarrow> string \<Rightarrow> string \<Rightarrow> kvstore" where
  "kvSet d k v = d(k \<mapsto> v)"

text \<open>
  The globals of \<^verbatim>\<open>bot.c\<close>, together with the store behind the \<^verbatim>\<open>db\<close> handle and the
  number of queries made to the outside world so far. \<^verbatim>\<open>WindowCount\<close> is the length of
  \<open>WindowList\<close>.
\<close>

record state =
  DangerMode :: bool
  WindowList :: "WinInfo list"
  WeakSecurity :: bool
  Authenticated :: bool
  LastActivity :: int
  OtpTimeout :: int
  Connected :: bool
  ConnectedWid :: PlatWinID
  ConnectedPid :: pid_t
  ConnectedOwner :: string
  ConnectedTitle :: string
  db :: kvstore
  calls :: nat

text \<open>The fields of \<^verbatim>\<open>BotRequest\<close> that \<^verbatim>\<open>handle_request\<close> reads.\<close>

record BotRequest =
  from_id :: int
  from_username :: string
  target :: int
  request :: string
  is_callback :: bool
  callback_id :: string
  callback_data :: string
  msg_id :: int

type_synonym byte = "8 word"

text \<open>
  What the program reads from outside is a parameter. The \<open>k\<close>-th query to the outside
  world is answered by the entry for \<open>k\<close>, so that two readings of the clock, or two
  listings of the windows, need not agree. \<open>hmac_sha1\<close> (sha1.h) and the conversion
  \<^verbatim>\<open>sscanf(hex, "%2x", &byte)\<close> are parameters as well; the latter yields the value stored
  when the call returns 1.
\<close>

record env =
  clock :: "nat \<Rightarrow> int"
  list_windows :: "nat \<Rightarrow> bool \<Rightarrow> WinInfo list"
  window_exists :: "nat \<Rightarrow> PlatWinID \<Rightarrow> pid_t \<Rightarrow> bool \<times> PlatWinID"
  capture_window :: "nat \<Rightarrow> PlatWinID \<Rightarrow> string \<Rightarrow> int"
  hmac_sha1 :: "byte list \<Rightarrow> byte list \<Rightarrow> byte list"
  sscanf_2x :: "string \<Rightarrow> 32 word option"

definition tick :: "state \<Rightarrow> state" where
  "tick st = st\<lparr>calls := Suc (calls st)\<rparr>"

text \<open>\<^verbatim>\<open>time(NULL)\<close>.\<close>

definition time_now :: "env \<Rightarrow> state \<Rightarrow> int \<times> state" where
  "time_now e st = (clock e (calls st), tick st)"

section \<open>TOTP authentication\<close>

text \<open>The loop filling \<^verbatim>\<open>msg[7]\<close> down to \<^verbatim>\<open>msg[0]\<close> with the low byte of the shifted step.\<close>

fun time_step_bytes :: "nat \<Rightarrow> 64 word \<Rightarrow> byte list" where
  "time_step_bytes 0 t = []"
| "time_step_bytes (Suc n) t = time_step_bytes n (drop_bit 8 t) @ [ucast (t AND 0xff)]"

definition totp_code :: "(byte list \<Rightarrow> byte list \<Rightarrow> byte list) \<Rightarrow> byte list \<Rightarrow> 64 word \<Rightarrow> 32 word" where
  "totp_code hmac secret time_step =
     (let msg = time_step_bytes 8 time_step;
          hash = hmac secret msg;
          offset = unat (hash ! 19 AND 0x0f);
          code = push_bit 24 (ucast (hash ! offset AND 0x7f) :: 32 word)
                 OR push_bit 16 (ucast (hash ! (offset + 1)))
                 OR push_bit 8 (ucast (hash ! (offset + 2)))
                 OR ucast (hash ! (offset + 3))
      in code mod 1000000)"

text \<open>The bytes written to \<^verbatim>\<open>out\<close>; the return value is their number.\<close>

fun hex_to_bytes :: "(string \<Rightarrow> 32 word option) \<Rightarrow> string \<Rightarrow> nat \<Rightarrow> byte list" where
  "hex_to_bytes sc (a # b # rest) (Suc m) =
     (case sc (a # b # rest) of
        None \<Rightarrow> []
      | Some byte \<Rightarrow> ucast byte # hex_to_bytes sc rest m)"
| "hex_to_bytes sc hex m = []"

text \<open>The clock is read only once the stored secret has decoded to 20 bytes.\<close>

definition totp_verify :: "env \<Rightarrow> state \<Rightarrow> string \<Rightarrow> bool \<times> state" where
  "totp_verify e st code_str =
     (case kvGet (db st) ''totp_secret'' of
        None \<Rightarrow> (False, st)
      | Some hex \<Rightarrow>
          (let secret = hex_to_bytes (sscanf_2x e) hex 20 in
           if length secret \<noteq> 20 then (False, st)
           else
             (let (t, st1) = time_now e st;
                  now = (word_of_int t :: 64 word) div 30;
                  input_code = (word_of_int (atoi code_str) :: 32 word)
              in (list_ex (\<lambda>i. totp_code (hmac_sha1 e) secret (now + word_of_int i) = input_code)
                    [-1, 0, 1 :: int],
                  st1))))"

section \<open>Window management\<close>

definition plat_list_windows :: "env \<Rightarrow> state \<Rightarrow> bool \<Rightarrow> WinInfo list \<times> state" where
  "plat_list_windows e st danger_mode = (list_windows e (calls st) danger_mode, tick st)"

definition refresh_window_list :: "env \<Rightarrow> state \<Rightarrow> state" where
  "refresh_window_list e st =
     (let (l, st1) = plat_list_windows e st (DangerMode st) in st1\<lparr>WindowList := l\<rparr>)"

definition connected_window_exists :: "env \<Rightarrow> state \<Rightarrow> bool \<times> state" where
  "connected_window_exists e st =
     (if \<not> Connected st then (False, st)
      else
        (let (found, wid) = window_exists e (calls st) (ConnectedWid st) (ConnectedPid st)
         in (found, (tick st)\<lparr>ConnectedWid := wid\<rparr>)))"

definition disconnect :: "state \<Rightarrow> state" where
  "disconnect st =
     st\<lparr>Connected := False, ConnectedWid := 0, ConnectedPid := 0,
        ConnectedOwner := [], ConnectedTitle := []\<rparr>"

definition capture_connected_window :: "env \<Rightarrow> state \<Rightarrow> string \<Rightarrow> int \<times> state \<times> action list" where
  "capture_connected_window e st path =
     (if \<not> Connected st then (-1, st, [])
      else (capture_window e (calls st) (ConnectedWid st) path, tick st,
            [PlatCaptureWindow (ConnectedWid st) path]))"

section \<open>Keystroke sending: the whole of send_keys\<close>

definition scan_init :: scan where
  "scan_init = \<lparr>mods = 0, keycount = 0, had_mods = False, last_was_nl = False, sent = []\<rparr>"

text \<open>The bytes the loop runs over: the text without a trailing purple heart.\<close>

definition scan_region :: "string \<Rightarrow> string" where
  "scan_region text =
     (if \<not> (\<not> ends_with_purple_heart text) \<and> length text \<ge> 4
      then take (length text - 4) text else text)"

definition send_keys :: "state \<Rightarrow> string \<Rightarrow> int \<times> action list" where
  "send_keys st text =
     (if \<not> Connected st then (-1, [])
      else
        (let add_newline = \<not> ends_with_purple_heart text;
             s = scan_keys (ConnectedPid st) (scan_region text) scan_init
         in (0, [PlatRaiseWindow (ConnectedPid st) (ConnectedWid st)] @ sent s @
                (if add_newline \<and> \<not> (keycount s = 1 \<and> had_mods s) \<and> \<not> last_was_nl s
                 then [Usleep 50000, PlatSendKey (ConnectedPid st) PLAT_KEY_RETURN 0 0]
                 else []))))"


section \<open>Bot command handlers\<close>

abbreviation (input) NL :: string where "NL \<equiv> [CHR 0x0A]"

text \<open>One line of the listing, cut to the 511 bytes that fit \<^verbatim>\<open>line[512]\<close>.\<close>

definition list_line :: "nat \<Rightarrow> WinInfo \<Rightarrow> string" where
  "list_line i w =
     take 511
       (if title w \<noteq> [] then
          ''.'' @ show_int (int i + 1) @ '' ['' @ show_nat (window_id w) @ ''] '' @ owner w
            @ '' - '' @ title w @ NL
        else
          ''.'' @ show_int (int i + 1) @ '' ['' @ show_nat (window_id w) @ ''] '' @ owner w @ NL)"

definition build_list_message :: "env \<Rightarrow> state \<Rightarrow> string \<times> state" where
  "build_list_message e st =
     (let st1 = refresh_window_list e st in
      if length (WindowList st1) = 0 then (''No terminal windows found.'', st1)
      else (''Terminal windows:'' @ NL
              @ concat (map (\<lambda>i. list_line i (WindowList st1 ! i)) [0 ..< length (WindowList st1)]),
            st1))"

definition build_help_message :: string where
  "build_help_message =
     ''Commands:'' @ NL
     @ ''.list - Show terminal windows'' @ NL
     @ ''.1 .2 ... - Connect to window'' @ NL
     @ ''.help - This help'' @ NL @ NL
     @ ''Once connected, text is sent as keystrokes.'' @ NL
     @ ''Newline is auto-added; end with `'' @ [CHR 0xF0, CHR 0x9F, CHR 0x92, CHR 0x9C]
     @ ''` to suppress it.'' @ NL @ NL
     @ ''Modifiers (tap to copy, then paste + key):'' @ NL
     @ ''`'' @ [CHR 0xE2, CHR 0x9D, CHR 0xA4, CHR 0xEF, CHR 0xB8, CHR 0x8F] @ ''` Ctrl  ''
     @ ''`'' @ [CHR 0xF0, CHR 0x9F, CHR 0x92, CHR 0x99] @ ''` Alt  ''
     @ ''`'' @ [CHR 0xF0, CHR 0x9F, CHR 0x92, CHR 0x9A] @ ''` Cmd/Super  ''
     @ ''`'' @ [CHR 0xF0, CHR 0x9F, CHR 0x92, CHR 0x9B] @ ''` ESC  ''
     @ ''`'' @ [CHR 0xF0, CHR 0x9F, CHR 0xA7, CHR 0xA1] @ ''` Enter'' @ NL @ NL
     @ ''Escape sequences: '' @ [CHR 0x5C] @ ''n=Enter '' @ [CHR 0x5C] @ ''t=Tab'' @ NL @ NL
     @ ''`.otptimeout <seconds>` - Set OTP timeout (30-28800)''"

section \<open>Telegram bot callbacks\<close>

abbreviation (input) SCREENSHOT_PATH :: string where "SCREENSHOT_PATH \<equiv> ''/tmp/tgterm_screenshot.png''"
abbreviation (input) OWNER_KEY :: string where "OWNER_KEY \<equiv> ''owner_id''"
abbreviation (input) REFRESH_DATA :: string where "REFRESH_DATA \<equiv> ''refresh''"

definition REFRESH_BTN :: string where
  "REFRESH_BTN = [CHR 0xF0, CHR 0x9F, CHR 0x94, CHR 0x84] @ '' Refresh''"

definition send_screenshot :: "env \<Rightarrow> state \<Rightarrow> int \<Rightarrow> state \<times> action list" where
  "send_screenshot e st chat_id =
     (let (rc, st1, out) = capture_connected_window e st SCREENSHOT_PATH in
      if rc \<noteq> 0 then (st1, out)
      else (st1, out @ [BotSendImageWithKeyboard chat_id SCREENSHOT_PATH REFRESH_BTN REFRESH_DATA]))"

definition refresh_screenshot :: "env \<Rightarrow> state \<Rightarrow> int \<Rightarrow> int \<Rightarrow> state \<times> action list" where
  "refresh_screenshot e st chat_id mid =
     (let (rc, st1, out) = capture_connected_window e st SCREENSHOT_PATH in
      if rc \<noteq> 0 then (st1, out)
      else (st1, out @ [BotEditMessageMedia chat_id mid SCREENSHOT_PATH REFRESH_BTN REFRESH_DATA]))"

text \<open>
  \<^verbatim>\<open>handle_request\<close> is one C function; it is modelled in three parts. The request lock
  held around the body serialises requests and has no counterpart here: the model
  handles one request at a time.
\<close>

text \<open>Lines 488-505: the request of an owner who is not, or no longer, authenticated.\<close>

definition otp_attempt :: "env \<Rightarrow> state \<Rightarrow> BotRequest \<Rightarrow> state \<times> action list" where
  "otp_attempt e st0 br =
     (let st = st0\<lparr>Authenticated := False\<rparr> in
      if is_callback br then (st, [BotAnswerCallbackQuery (callback_id br)])
      else
        (let req = request br;
             is_otp = (length req = 6 \<and> list_all isdigit (take 6 req));
             (ok, st1) = (if is_otp then totp_verify e st req else (False, st))
         in if ok then
              (let (t, st2) = time_now e st1
               in (st2\<lparr>Authenticated := True, LastActivity := t\<rparr>,
                   [BotSendMessage (target br) ''Authenticated.'']))
            else (st1, [BotSendMessage (target br) ''Enter OTP code.''])))"

text \<open>Lines 551-581: the connect command, \<^verbatim>\<open>req\<close> starting with a dot and a digit.\<close>

definition connect_window :: "env \<Rightarrow> state \<Rightarrow> BotRequest \<Rightarrow> state \<times> action list" where
  "connect_window e st0 br =
     (let n = atoi (drop 1 (request br));
          st = refresh_window_list e st0
      in if n < 1 \<or> n > int (length (WindowList st)) then
           (st, [BotSendMessage (target br) ''Invalid window number.''])
         else
           (let w = WindowList st ! nat (n - 1);
                st1 = st\<lparr>Connected := True,
                         ConnectedWid := window_id w,
                         ConnectedPid := pid w,
                         ConnectedOwner := take 127 (owner w),
                         ConnectedTitle := take 255 (title w)\<rparr>;
                msg = ''Connected to '' @ ConnectedOwner st1
                      @ (if ConnectedTitle st1 \<noteq> [] then '' - '' @ ConnectedTitle st1 else []);
                (st2, out) = send_screenshot e st1 (target br)
            in (st2, [BotSendMessage (target br) msg, PlatRaiseWindow (pid w) (window_id w)] @ out)))"

text \<open>Lines 510-605: what an accepted request does.\<close>

definition dispatch :: "env \<Rightarrow> state \<Rightarrow> BotRequest \<Rightarrow> state \<times> action list" where
  "dispatch e st br =
     (if is_callback br then
        (if callback_data br = REFRESH_DATA \<and> Connected st then
           (let (st1, out) = refresh_screenshot e st (target br) (msg_id br)
            in (st1, BotAnswerCallbackQuery (callback_id br) # out))
         else (st, [BotAnswerCallbackQuery (callback_id br)]))
      else
        (let req = request br in
         if strcasecmp_eq req ''.list'' then
           (let (msg, st1) = build_list_message e (disconnect st)
            in (st1, [BotSendMessage (target br) msg]))
         else if strcasecmp_eq req ''.help'' then
           (st, [BotSendMessage (target br) build_help_message])
         else if strncasecmp_eq req ''.otptimeout'' 11 then
           (let arg = dropWhile (\<lambda>c. c = CHR '' '') (drop 11 req);
                secs0 = atoi arg;
                secs1 = (if secs0 < 30 then 30 else secs0);
                secs = (if secs1 > 28800 then 28800 else secs1)
            in (st\<lparr>OtpTimeout := secs, db := kvSet (db st) ''otp_timeout'' (show_int secs)\<rparr>,
                [BotSendMessage (target br)
                   (''OTP timeout set to '' @ show_int secs @ '' seconds.'')]))
         else if req \<noteq> [] \<and> hd req = CHR ''.'' \<and> length req > 1 \<and> isdigit (req ! 1) then
           connect_window e st br
         else if \<not> Connected st then
           (let (msg, st1) = build_list_message e st
            in (st1, [BotSendMessage (target br) msg]))
         else
           (let (found, st1) = connected_window_exists e st in
            if \<not> found then
              (let (list, st2) = build_list_message e (disconnect st1)
               in (st2, [BotSendMessage (target br) (''Window closed.'' @ NL @ NL @ list)]))
            else
              (let (rc, keys) = send_keys st1 req;
                   (found2, st2) = connected_window_exists e st1;
                   (st3, out) = send_screenshot e st2 (target br)
               in (st3, keys @ [Sleep 2] @ out)))))"

text \<open>
  Lines 465-508, then the dispatch. The clock is read for the expiry test only when
  \<open>Authenticated\<close> is set (the test is the right operand of \<^verbatim>\<open>||\<close>). Times are
  \<^verbatim>\<open>time_t\<close> values, modelled as integers: the difference of two readings of a clock
  does not leave the 64-bit range.
\<close>

definition handle_request :: "env \<Rightarrow> state \<Rightarrow> BotRequest \<Rightarrow> state \<times> action list" where
  "handle_request e st br =
     (let owner_str = kvGet (db st) OWNER_KEY;
          owner_id0 = (case owner_str of None \<Rightarrow> 0 | Some s \<Rightarrow> strtoll s);
          st1 = (if owner_id0 = 0
                 then st\<lparr>db := kvSet (db st) OWNER_KEY (show_int (from_id br))\<rparr> else st);
          out1 = (if owner_id0 = 0
                  then [Printf (''Registered owner: '' @ show_int (from_id br) @ '' (''
                                @ from_username br @ '')'' @ NL)]
                  else []);
          owner_id = (if owner_id0 = 0 then from_id br else owner_id0)
      in if from_id br \<noteq> owner_id then
           (st1, out1 @ [Printf (''Ignoring message from non-owner '' @ show_int (from_id br) @ NL)])
         else if \<not> WeakSecurity st1 then
           (let (expired, st2) =
                  (if \<not> Authenticated st1 then (True, st1)
                   else (let (t, st') = time_now e st1
                         in (t - LastActivity st1 > OtpTimeout st1, st')))
            in if expired then
                 (let (st3, out) = otp_attempt e st2 br in (st3, out1 @ out))
               else
                 (let (t, st3) = time_now e st2;
                      (st4, out) = dispatch e (st3\<lparr>LastActivity := t\<rparr>) br
                  in (st4, out1 @ out)))
         else
           (let (st2, out) = dispatch e st1 br in (st2, out1 @ out)))"


section \<open>Vocabulary for the statements about the encoder\<close>

text \<open>The glyphs, as UTF-8 bytes.\<close>

definition purple_heart :: string where
  "purple_heart = [CHR 0xF0, CHR 0x9F, CHR 0x92, CHR 0x9C]"

definition yellow_heart :: string where
  "yellow_heart = [CHR 0xF0, CHR 0x9F, CHR 0x92, CHR 0x9B]"

definition red_heart :: string where
  "red_heart = [CHR 0xE2, CHR 0x9D, CHR 0xA4, CHR 0xEF, CHR 0xB8, CHR 0x8F]"

text \<open>The \<^verbatim>\<open>special\<close> and \<^verbatim>\<open>mods\<close> arguments of a \<^verbatim>\<open>plat_send_key\<close> call.\<close>

fun key_special :: "action \<Rightarrow> int" where
  "key_special (PlatSendKey p special ch m) = special"
| "key_special _ = -1"

fun key_mods :: "action \<Rightarrow> int" where
  "key_mods (PlatSendKey p special ch m) = m"
| "key_mods _ = 0"

text \<open>The key events the loop of \<^verbatim>\<open>send_keys\<close> sends for a text.\<close>

definition key_events :: "pid_t \<Rightarrow> string \<Rightarrow> action list" where
  "key_events cpid text = sent (scan_keys cpid (scan_region text) scan_init)"

text \<open>The keys in \<open>xs\<close> are the first keys sent in state \<open>s\<close>.\<close>

definition sent_extends :: "action list \<Rightarrow> scan \<Rightarrow> bool" where
  "sent_extends xs s \<longleftrightarrow> take (length xs) (sent s) = xs"

text \<open>What the three bookkeeping variables of the loop say about the keys sent so far.\<close>

definition scan_inv :: "scan \<Rightarrow> bool" where
  "scan_inv s \<longleftrightarrow>
     keycount s = int (length (sent s))
     \<and> (had_mods s \<longleftrightarrow> list_ex (\<lambda>a. key_mods a \<noteq> 0 \<or> key_special a = PLAT_KEY_ESCAPE) (sent s))
     \<and> (last_was_nl s \<longleftrightarrow> sent s \<noteq> [] \<and> key_special (last (sent s)) = PLAT_KEY_RETURN)"

section \<open>Vocabulary for the statements about the access gate\<close>

text \<open>The value of \<^verbatim>\<open>owner_id\<close> after the stored owner has been read (lines 465-471).\<close>

definition stored_owner :: "state \<Rightarrow> int" where
  "stored_owner st = (case kvGet (db st) OWNER_KEY of None \<Rightarrow> 0 | Some s \<Rightarrow> strtoll s)"



text \<open>The state in which the commands then run: an enabled gate has read the clock
  twice and stamped \<open>LastActivity\<close> with the second reading.\<close>

definition accepted_state :: "env \<Rightarrow> state \<Rightarrow> state" where
  "accepted_state e st =
     (if WeakSecurity st then st
      else (tick (tick st))\<lparr>LastActivity := clock e (Suc (calls st))\<rparr>)"

section \<open>Vocabulary for the statements about numbers in requests\<close>



section \<open>Sample data\<close>

text \<open>
  A concrete outside world and concrete states, on which the theorems below are run.
  \<open>sample_hmac\<close> stands in for \<open>hmac_sha1\<close> there (it returns 20 bytes made from the
  key and the message); no theorem depends on it.
\<close>

definition hex_digit :: "char \<Rightarrow> nat option" where
  "hex_digit c = map_of (zip ''0123456789abcdef'' [0 ..< 16]) c"

definition sample_sscanf :: "string \<Rightarrow> 32 word option" where
  "sample_sscanf s =
     (case s of
        a # b # _ \<Rightarrow>
          (case (hex_digit a, hex_digit b) of
             (Some x, Some y) \<Rightarrow> Some (of_nat (16 * x + y))
           | _ \<Rightarrow> None)
      | _ \<Rightarrow> None)"

definition sample_hmac :: "byte list \<Rightarrow> byte list \<Rightarrow> byte list" where
  "sample_hmac k m = take 20 (take 7 k @ drop 4 m @ k)"

definition sample_windows :: "WinInfo list" where
  "sample_windows =
     [\<lparr>window_id = 11, pid = 501, owner = ''xterm'', title = ''build''\<rparr>,
      \<lparr>window_id = 12, pid = 502, owner = ''kitty'', title = []\<rparr>]"

definition sample_env :: env where
  "sample_env =
     \<lparr>clock = (\<lambda>k. 1700000000 + int k),
      list_windows = (\<lambda>k danger. sample_windows),
      window_exists = (\<lambda>k wid p. (True, wid)),
      capture_window = (\<lambda>k wid path. 0),
      hmac_sha1 = sample_hmac,
      sscanf_2x = sample_sscanf\<rparr>"

definition sample_db :: kvstore where
  "sample_db = [''owner_id'' \<mapsto> ''42'', ''totp_secret'' \<mapsto> concat (replicate 20 ''a7'')]"

text \<open>The owner 42 is pinned, nobody is authenticated, window 5 of process 77 is connected.\<close>

definition sample_state :: state where
  "sample_state =
     \<lparr>DangerMode = False, WindowList = [], WeakSecurity = False, Authenticated = False,
      LastActivity = 0, OtpTimeout = 300, Connected = True, ConnectedWid = 5,
      ConnectedPid = 77, ConnectedOwner = ''xterm'', ConnectedTitle = ''sh'',
      db = sample_db, calls = 0\<rparr>"

definition text_request :: "int \<Rightarrow> string \<Rightarrow> BotRequest" where
  "text_request sender txt =
     \<lparr>from_id = sender, from_username = ''user'', target = 9000, request = txt,
      is_callback = False, callback_id = [], callback_data = [], msg_id = 0\<rparr>"

text \<open>Variants of the sample state: an authenticated session that is still fresh at the
  sample clock, one that has expired, and a run with the gate disabled.\<close>

definition fresh_state :: state where
  "fresh_state = sample_state\<lparr>Authenticated := True, LastActivity := 1699999900\<rparr>"

definition stale_state :: state where
  "stale_state = sample_state\<lparr>Authenticated := True, LastActivity := 1699990000\<rparr>"

definition weak_state :: state where
  "weak_state = sample_state\<lparr>WeakSecurity := True\<rparr>"

section \<open>The owner filter\<close>

text \<open>
  C1. When an owner is pinned (the stored identifier reads as a non-zero number, zero
  being the code's mark for "no owner yet") and the sender of a request is somebody
  else, \<open>handle_request\<close> sends nothing to the messaging gateway: the only effect is a
  line on the console. Nothing of the state changes, the clock is not read, and this
  holds whatever the request contains and whatever the flags \<open>WeakSecurity\<close> and
  \<open>Authenticated\<close> are, so the drop comes before the authentication and command logic.
\<close>

theorem non_owner_request_dropped:
  assumes "kvGet (db st) OWNER_KEY = Some s"
    and "strtoll s \<noteq> 0"
    and "from_id br \<noteq> strtoll s"
  shows "fst (handle_request e st br) = st
         \<and> filter is_reply (snd (handle_request e st br)) = []
         \<and> snd (handle_request e st br)
             = [Printf (''Ignoring message from non-owner '' @ show_int (from_id br) @ NL)]"
  using assms by (simp add: handle_request_def)

lemma sample_owner: "kvGet (db sample_state) OWNER_KEY = Some ''42''"
  by (simp add: sample_state_def sample_db_def kvGet_def)

lemma strtoll_42: "strtoll ''42'' = 42"
  by (simp add: strtoll_def strtol_w_def isspace_def isdigit_def digit_val_def)

theorem non_owner_request_dropped_witness:
  "fst (handle_request sample_env sample_state (text_request 7 ''.list'')) = sample_state
   \<and> filter is_reply (snd (handle_request sample_env sample_state (text_request 7 ''.list''))) = []"
  using non_owner_request_dropped [of sample_state "''42''" "text_request 7 ''.list''" sample_env]
  by (simp add: sample_owner strtoll_42 text_request_def)


section \<open>The keystroke encoder\<close>

subsection \<open>The loop variables describe the keys sent\<close>

lemma scan_inv_init: "scan_inv scan_init"
  by (simp add: scan_inv_def scan_init_def)

lemma scan_inv_mods: "scan_inv s \<Longrightarrow> scan_inv (s\<lparr>mods := m\<rparr>)"
  by (simp add: scan_inv_def)

lemma scan_inv_emit:
  "scan_inv s \<Longrightarrow> special \<noteq> 3 \<Longrightarrow> nl = (special = 1) \<Longrightarrow> scan_inv (emit cpid special ch nl (s\<lparr>last_was_nl := b\<rparr>))"
  by (auto simp add: scan_inv_def emit_def)

lemma scan_inv_emit0:
  "scan_inv s \<Longrightarrow> special \<noteq> 3 \<Longrightarrow> nl = (special = 1) \<Longrightarrow> scan_inv (emit cpid special ch nl s)"
  by (auto simp add: scan_inv_def emit_def)

lemma scan_inv_escape: "scan_inv s \<Longrightarrow> scan_inv (emit_escape cpid s)"
  by (auto simp add: scan_inv_def emit_escape_def)

lemma scan_inv_scan_keys: "scan_inv s \<Longrightarrow> scan_inv (scan_keys cpid p s)"
proof (induction cpid p s rule: scan_keys.induct)
  case (1 cpid p s)
  note inv = "1.prems"
  have m: "scan_inv (s\<lparr>mods := m\<rparr>)" for m using inv by (rule scan_inv_mods)
  have e: "scan_inv (emit cpid special ch (special = 1) (s\<lparr>last_was_nl := False\<rparr>))"
    if "special \<noteq> 3" for special ch using inv that by (simp add: scan_inv_emit)
  have e0: "scan_inv (emit cpid 1 0 True s)"
    using inv by (simp add: scan_inv_emit0)
  have y: "scan_inv (emit_escape cpid s)" using inv by (rule scan_inv_escape)
  have col: "scan_inv (if snd (match_colored_heart p) = CHR ''Y'' then emit_escape cpid s
           else if snd (match_colored_heart p) = CHR ''B'' then s\<lparr>mods := mods s OR MOD_ALT\<rparr>
           else if snd (match_colored_heart p) = CHR ''G'' then s\<lparr>mods := mods s OR MOD_CMD\<rparr>
           else s)"
    using inv m y by simp
  show ?case
    apply (subst scan_keys.simps)
    using "1.IH" inv m e0 y col e[of 1 0] e[of 2 0] e[of 0 "0x5C"] e[of 0 "of_char (hd p)"]
    apply (simp del: One_nat_def)
    done
qed


lemma match_red_heart_append:
  "p \<noteq> [] \<Longrightarrow> match_red_heart (p @ CHR 0xF0 # r) = match_red_heart p"
  unfolding match_red_heart_def
  by (cases p; cases "tl p"; cases "tl (tl p)"; cases "tl (tl (tl p))"; cases "tl (tl (tl (tl p)))";
      cases "tl (tl (tl (tl (tl p))))") (auto simp add: nth_append nth_Cons')

lemma match_orange_heart_append:
  "p \<noteq> [] \<Longrightarrow> match_orange_heart (p @ CHR 0xF0 # r) = match_orange_heart p"
  unfolding match_orange_heart_def
  by (cases p; cases "tl p"; cases "tl (tl p)"; cases "tl (tl (tl p))")
     (auto simp add: nth_append nth_Cons')

lemma match_colored_heart_append:
  "p \<noteq> [] \<Longrightarrow> match_colored_heart (p @ CHR 0xF0 # r) = match_colored_heart p"
  unfolding match_colored_heart_def
  by (cases p; cases "tl p"; cases "tl (tl p)"; cases "tl (tl (tl p))")
     (auto simp add: nth_append nth_Cons')

lemma escape_append:
  "p \<noteq> [] \<Longrightarrow> c \<noteq> CHR 0xF0 \<Longrightarrow>
     ((p @ CHR 0xF0 # r) ! 1 = c) = (1 < length p \<and> p ! 1 = c)"
  by (cases p; cases "tl p") (auto simp add: nth_append nth_Cons')

lemma match_red_heart_le: "match_red_heart p \<le> length p"
  by (simp add: match_red_heart_def)

lemma match_orange_heart_le: "match_orange_heart p \<le> length p"
  by (simp add: match_orange_heart_def)

lemma match_colored_heart_le: "fst (match_colored_heart p) \<le> length p"
  by (simp add: match_colored_heart_def)


lemma eqT: "P \<Longrightarrow> P = True"
  by simp

lemma eqF: "\<not> Q \<Longrightarrow> Q = False"
  by simp

lemma scan_keys_Nil: "scan_keys cpid [] s = s"
  by (subst scan_keys.simps) simp

lemma scan_keys_append:
  "scan_keys cpid (p @ CHR 0xF0 # r) s = scan_keys cpid (CHR 0xF0 # r) (scan_keys cpid p s)"
proof (induction cpid p s rule: scan_keys.induct)
  case (1 cpid p s)
  show ?case
  proof (cases "p = []")
    case True
    then show ?thesis by (simp add: scan_keys_Nil)
  next
    case False
    have one: "1 - length p = 0"
      using False by (cases p) simp_all
    have L: "scan_keys cpid (p @ CHR 0xF0 # r) s =
      (if match_red_heart p > 0 then
        scan_keys cpid (drop (match_red_heart p) p @ CHR 0xF0 # r) (s\<lparr>mods := mods s OR MOD_CTRL\<rparr>)
      else if match_orange_heart p > 0 then
        scan_keys cpid (drop (match_orange_heart p) p @ CHR 0xF0 # r) (emit cpid PLAT_KEY_RETURN 0 True s)
      else if fst (match_colored_heart p) > 0 then
        scan_keys cpid (drop (fst (match_colored_heart p)) p @ CHR 0xF0 # r)
          (if snd (match_colored_heart p) = CHR ''Y'' then emit_escape cpid s
           else if snd (match_colored_heart p) = CHR ''B'' then s\<lparr>mods := mods s OR MOD_ALT\<rparr>
           else if snd (match_colored_heart p) = CHR ''G'' then s\<lparr>mods := mods s OR MOD_CMD\<rparr>
           else s)
      else if hd p = CHR 0x5C \<and> length p > 1 \<and> p ! 1 = CHR ''n'' then
        scan_keys cpid (drop 2 p @ CHR 0xF0 # r) (emit cpid PLAT_KEY_RETURN 0 True (s\<lparr>last_was_nl := False\<rparr>))
      else if hd p = CHR 0x5C \<and> length p > 1 \<and> p ! 1 = CHR ''t'' then
        scan_keys cpid (drop 2 p @ CHR 0xF0 # r) (emit cpid PLAT_KEY_TAB 0 False (s\<lparr>last_was_nl := False\<rparr>))
      else if hd p = CHR 0x5C \<and> length p > 1 \<and> p ! 1 = CHR 0x5C then
        scan_keys cpid (drop 2 p @ CHR 0xF0 # r) (emit cpid PLAT_KEY_CHAR 0x5C False (s\<lparr>last_was_nl := False\<rparr>))
      else
        scan_keys cpid (drop 1 p @ CHR 0xF0 # r) (emit cpid PLAT_KEY_CHAR (of_char (hd p)) False (s\<lparr>last_was_nl := False\<rparr>)))"
      apply (subst scan_keys.simps)
      using False match_red_heart_le [of p] match_orange_heart_le [of p] match_colored_heart_le [of p]
      apply (simp add: match_red_heart_append match_orange_heart_append match_colored_heart_append
          escape_append one del: One_nat_def)
      done
    have R: "scan_keys cpid p s =
      (if match_red_heart p > 0 then
        scan_keys cpid (drop (match_red_heart p) p) (s\<lparr>mods := mods s OR MOD_CTRL\<rparr>)
      else if match_orange_heart p > 0 then
        scan_keys cpid (drop (match_orange_heart p) p) (emit cpid PLAT_KEY_RETURN 0 True s)
      else if fst (match_colored_heart p) > 0 then
        scan_keys cpid (drop (fst (match_colored_heart p)) p)
          (if snd (match_colored_heart p) = CHR ''Y'' then emit_escape cpid s
           else if snd (match_colored_heart p) = CHR ''B'' then s\<lparr>mods := mods s OR MOD_ALT\<rparr>
           else if snd (match_colored_heart p) = CHR ''G'' then s\<lparr>mods := mods s OR MOD_CMD\<rparr>
           else s)
      else if hd p = CHR 0x5C \<and> length p > 1 \<and> p ! 1 = CHR ''n'' then
        scan_keys cpid (drop 2 p) (emit cpid PLAT_KEY_RETURN 0 True (s\<lparr>last_was_nl := False\<rparr>))
      else if hd p = CHR 0x5C \<and> length p > 1 \<and> p ! 1 = CHR ''t'' then
        scan_keys cpid (drop 2 p) (emit cpid PLAT_KEY_TAB 0 False (s\<lparr>last_was_nl := False\<rparr>))
      else if hd p = CHR 0x5C \<and> length p > 1 \<and> p ! 1 = CHR 0x5C then
        scan_keys cpid (drop 2 p) (emit cpid PLAT_KEY_CHAR 0x5C False (s\<lparr>last_was_nl := False\<rparr>))
      else
        scan_keys cpid (drop 1 p) (emit cpid PLAT_KEY_CHAR (of_char (hd p)) False (s\<lparr>last_was_nl := False\<rparr>)))"
      using False by (subst scan_keys.simps) (simp only: if_False)
    note IH = "1.IH" [OF False]
    show ?thesis
    proof (cases "0 < match_red_heart p")
      case c1: True
      show ?thesis using IH(1) [OF c1]
                  by (simp only: L R if_True if_False c1 [THEN eqT])
    next
      case c1: False
      show ?thesis
      proof (cases "0 < match_orange_heart p")
        case c2: True
        show ?thesis using IH(2) [OF c1 c2]
                  by (simp only: L R if_True if_False c1 [THEN eqF] c2 [THEN eqT])
      next
        case c2: False
        show ?thesis
        proof (cases "0 < fst (match_colored_heart p)")
          case c3: True
          show ?thesis using IH(3) [OF c1 c2 c3]
                  by (simp only: L R if_True if_False c1 [THEN eqF] c2 [THEN eqF] c3 [THEN eqT])
        next
          case c3: False
          show ?thesis
          proof (cases "hd p = CHR 0x5C \<and> length p > 1 \<and> p ! 1 = CHR ''n''")
            case c4: True
            show ?thesis using IH(4) [OF c1 c2 c3 c4]
                  by (simp only: L R if_True if_False c1 [THEN eqF] c2 [THEN eqF] c3 [THEN eqF] c4 [THEN eqT])
          next
            case c4: False
            show ?thesis
            proof (cases "hd p = CHR 0x5C \<and> length p > 1 \<and> p ! 1 = CHR ''t''")
              case c5: True
              show ?thesis using IH(5) [OF c1 c2 c3 c4 c5]
                  by (simp only: L R if_True if_False c1 [THEN eqF] c2 [THEN eqF] c3 [THEN eqF] c4 [THEN eqF] c5 [THEN eqT])
            next
              case c5: False
              show ?thesis
              proof (cases "hd p = CHR 0x5C \<and> length p > 1 \<and> p ! 1 = CHR 0x5C")
                case c6: True
                show ?thesis using IH(6) [OF c1 c2 c3 c4 c5 c6]
                  by (simp only: L R if_True if_False c1 [THEN eqF] c2 [THEN eqF] c3 [THEN eqF] c4 [THEN eqF] c5 [THEN eqF] c6 [THEN eqT])
              next
                case c6: False
                show ?thesis using IH(7) [OF c1 c2 c3 c4 c5 c6]
                  by (simp only: L R if_True if_False c1 [THEN eqF] c2 [THEN eqF] c3 [THEN eqF] c4 [THEN eqF] c5 [THEN eqF] c6 [THEN eqF])
              qed
            qed
          qed
        qed
      qed
    qed
  qed
qed


lemma list4_eq:
  "length d = 4 \<Longrightarrow> (d ! 0 = a \<and> d ! 1 = b \<and> d ! 2 = c \<and> d ! 3 = e) = (d = [a, b, c, e])"
  by (cases d; cases "tl d"; cases "tl (tl d)"; cases "tl (tl (tl d))") auto

lemma ends_with_rev:
  "ends_with_purple_heart text \<longleftrightarrow> take 4 (rev text) = rev purple_heart"
proof (cases "length text \<ge> 4")
  case True
  let ?d = "drop (length text - 4) text"
  have len: "length ?d = 4" using True by simp
  have "ends_with_purple_heart text \<longleftrightarrow> ?d = purple_heart"
    using True len list4_eq [OF len]
    by (simp add: ends_with_purple_heart_def match_purple_heart_def purple_heart_def)
  also have "\<dots> \<longleftrightarrow> rev ?d = rev purple_heart" by simp
  also have "rev ?d = take 4 (rev text)" by (simp add: take_rev)
  finally show ?thesis .
next
  case False
  then have "length (take 4 (rev text)) \<noteq> length (rev purple_heart)"
    by (simp add: purple_heart_def)
  then have "take 4 (rev text) \<noteq> rev purple_heart" by metis
  then show ?thesis using False by (simp add: ends_with_purple_heart_def)
qed

lemma ends_with_purple_heart_iff:
  "ends_with_purple_heart text \<longleftrightarrow> (\<exists>pre. text = pre @ purple_heart)"
proof
  assume "ends_with_purple_heart text"
  then have t: "take 4 (rev text) = rev purple_heart" by (simp add: ends_with_rev)
  have "rev text = take 4 (rev text) @ drop 4 (rev text)" by simp
  then have "rev text = rev purple_heart @ drop 4 (rev text)" using t by simp
  then have "text = rev (drop 4 (rev text)) @ purple_heart"
    by (metis rev_append rev_rev_ident)
  then show "\<exists>pre. text = pre @ purple_heart" ..
next
  assume "\<exists>pre. text = pre @ purple_heart"
  then show "ends_with_purple_heart text"
    by (auto simp add: ends_with_rev purple_heart_def)
qed

lemma ends_with_after_glyph:
  assumes "a \<noteq> CHR 0xF0" "b \<noteq> CHR 0xF0" "c \<noteq> CHR 0xF0" "post \<noteq> [] \<or> c \<noteq> CHR 0x9C"
  shows "ends_with_purple_heart (pre @ [CHR 0xF0, a, b, c] @ post) = ends_with_purple_heart post"
  using assms
  by (cases "rev post"; cases "tl (rev post)"; cases "tl (tl (rev post))"; cases "tl (tl (tl (rev post)))")
     (auto simp add: ends_with_rev purple_heart_def)

lemma scan_region_after_glyph:
  assumes "a \<noteq> CHR 0xF0" "b \<noteq> CHR 0xF0" "c \<noteq> CHR 0xF0" "post \<noteq> [] \<or> c \<noteq> CHR 0x9C"
  shows "scan_region (pre @ [CHR 0xF0, a, b, c] @ post) = pre @ [CHR 0xF0, a, b, c] @ scan_region post"
proof (cases "ends_with_purple_heart post")
  case True
  then have len: "length post \<ge> 4" by (simp add: ends_with_purple_heart_def)
  have A: "scan_region post = take (length post - 4) post"
    using True len by (simp add: scan_region_def)
  have E: "ends_with_purple_heart (pre @ [CHR 0xF0, a, b, c] @ post)"
    using True ends_with_after_glyph [OF assms, of pre] by simp
  have l2: "4 \<le> length (pre @ [CHR 0xF0, a, b, c] @ post)" by simp
  have B: "scan_region (pre @ [CHR 0xF0, a, b, c] @ post)
           = take (length (pre @ [CHR 0xF0, a, b, c] @ post) - 4) (pre @ [CHR 0xF0, a, b, c] @ post)"
    unfolding scan_region_def
    by (simp only: E [THEN eqT] l2 [THEN eqT] not_not simp_thms if_True)
  have C: "take (length (pre @ g @ post) - 4) (pre @ g @ post) = pre @ g @ take (length post - 4) post"
    for g :: string
    using len by simp
  show ?thesis by (simp only: A B C)
next
  case False
  then show ?thesis
    using ends_with_after_glyph [OF assms, of pre]
    by (simp add: scan_region_def)
qed

lemma scan_keys_yellow:
  "scan_keys cpid (yellow_heart @ rest) s = scan_keys cpid rest (emit_escape cpid s)"
  by (subst scan_keys.simps)
     (simp add: yellow_heart_def match_red_heart_def match_orange_heart_def match_colored_heart_def)

lemma scan_keys_literal:
  assumes "c \<notin> {CHR 0xE2, CHR 0xF0, CHR 0x5C}"
  shows "scan_keys cpid (c # rest) s
         = scan_keys cpid rest (emit cpid PLAT_KEY_CHAR (of_char c) False (s\<lparr>last_was_nl := False\<rparr>))"
  using assms
  by (subst scan_keys.simps)
     (simp add: match_red_heart_def match_orange_heart_def match_colored_heart_def)

lemma scan_keys_purple:
  "scan_keys cpid (purple_heart @ rest) s
   = scan_keys cpid rest
       (s\<lparr>sent := sent s @ [PlatSendKey cpid PLAT_KEY_CHAR 0xF0 (mods s),
                              PlatSendKey cpid PLAT_KEY_CHAR 0x9F 0,
                              PlatSendKey cpid PLAT_KEY_CHAR 0x92 0,
                              PlatSendKey cpid PLAT_KEY_CHAR 0x9C 0],
          had_mods := (had_mods s \<or> mods s \<noteq> 0),
          keycount := keycount s + 4,
          last_was_nl := False,
          mods := 0\<rparr>)"
proof -
  have "scan_keys cpid (purple_heart @ rest) s
        = scan_keys cpid ([CHR 0x9F, CHR 0x92, CHR 0x9C] @ rest)
            (emit cpid PLAT_KEY_CHAR 0xF0 False (s\<lparr>last_was_nl := False\<rparr>))"
    by (subst scan_keys.simps)
       (simp add: purple_heart_def match_red_heart_def match_orange_heart_def match_colored_heart_def)
  then show ?thesis
    by (simp add: scan_keys_literal emit_def ac_simps)
qed



lemma list_ex_single: "length evs = 1 \<Longrightarrow> list_ex P evs = P (hd evs)"
  by (cases evs) simp_all

subsection \<open>The automatic trailing Return\<close>

text \<open>
  C4, as amended. \<open>send_keys\<close> raises the window, sends the key events of the text and
  then appends an automatic Return unless the text ended with the purple heart, or
  exactly one key event was sent and that event carried a modifier or was an Escape
  (the yellow heart sets \<^verbatim>\<open>had_mods\<close> although it sends Escape without modifiers), or
  the last key event sent was a Return.
\<close>

theorem trailing_return_rule:
  assumes "Connected st"
  shows "snd (send_keys st text)
         = [PlatRaiseWindow (ConnectedPid st) (ConnectedWid st)]
           @ key_events (ConnectedPid st) text
           @ (if \<not> ends_with_purple_heart text
                 \<and> \<not> (length (key_events (ConnectedPid st) text) = 1
                        \<and> (key_mods (hd (key_events (ConnectedPid st) text)) \<noteq> 0
                            \<or> key_special (hd (key_events (ConnectedPid st) text)) = PLAT_KEY_ESCAPE))
                 \<and> \<not> (key_events (ConnectedPid st) text \<noteq> []
                        \<and> key_special (last (key_events (ConnectedPid st) text)) = PLAT_KEY_RETURN)
              then [Usleep 50000, PlatSendKey (ConnectedPid st) PLAT_KEY_RETURN 0 0]
              else [])"
proof -
  define s where "s = scan_keys (ConnectedPid st) (scan_region text) scan_init"
  define evs where "evs = sent s"
  have inv: "scan_inv s"
    unfolding s_def by (rule scan_inv_scan_keys) (rule scan_inv_init)
  have k: "keycount s = 1 \<longleftrightarrow> length evs = 1"
    using inv by (simp add: scan_inv_def evs_def)
  have hm: "had_mods s \<longleftrightarrow> list_ex (\<lambda>a. key_mods a \<noteq> 0 \<or> key_special a = PLAT_KEY_ESCAPE) evs"
    using inv by (simp add: scan_inv_def evs_def)
  have h: "(keycount s = 1 \<and> had_mods s) =
           (length evs = 1 \<and> (key_mods (hd evs) \<noteq> 0 \<or> key_special (hd evs) = PLAT_KEY_ESCAPE))"
    using k hm list_ex_single [of evs "\<lambda>a. key_mods a \<noteq> 0 \<or> key_special a = PLAT_KEY_ESCAPE"]
    by blast
  have l: "last_was_nl s = (evs \<noteq> [] \<and> key_special (last evs) = PLAT_KEY_RETURN)"
    using inv by (simp add: scan_inv_def evs_def)
  have main: "snd (send_keys st text)
         = [PlatRaiseWindow (ConnectedPid st) (ConnectedWid st)] @ evs
           @ (if \<not> ends_with_purple_heart text \<and> \<not> (keycount s = 1 \<and> had_mods s) \<and> \<not> last_was_nl s
              then [Usleep 50000, PlatSendKey (ConnectedPid st) PLAT_KEY_RETURN 0 0]
              else [])"
    using assms by (simp add: send_keys_def Let_def s_def evs_def)
  have ke: "key_events (ConnectedPid st) text = evs"
    by (simp only: key_events_def evs_def s_def)
  show ?thesis
    by (simp only: main h l ke)
qed

theorem trailing_return_rule_witness:
  "Connected sample_state
   \<and> snd (send_keys sample_state ''hi'')
       = [PlatRaiseWindow 77 5, PlatSendKey 77 PLAT_KEY_CHAR 104 0,
          PlatSendKey 77 PLAT_KEY_CHAR 105 0, Usleep 50000, PlatSendKey 77 PLAT_KEY_RETURN 0 0]"
proof -
  have c: "Connected sample_state" by (simp add: sample_state_def)
  have e: "key_events 77 ''hi'' = [PlatSendKey 77 PLAT_KEY_CHAR 104 0, PlatSendKey 77 PLAT_KEY_CHAR 105 0]"
    by code_simp
  have m: "\<not> ends_with_purple_heart ''hi''" by code_simp
  have p: "ConnectedPid sample_state = 77" "ConnectedWid sample_state = 5"
    by (simp_all add: sample_state_def)
  show ?thesis
    using trailing_return_rule [OF c, of "''hi''"] c by (simp add: p e m)
qed

text \<open>
  C4 as stated fails on the text consisting of the yellow heart alone: there is no
  purple heart, exactly one key event is sent, it carries no modifier and it is not a
  Return; still no Return is appended.
\<close>

theorem single_escape_no_return:
  "\<not> ends_with_purple_heart yellow_heart
   \<and> snd (send_keys sample_state yellow_heart)
       = [PlatRaiseWindow 77 5, PlatSendKey 77 PLAT_KEY_ESCAPE 0 0]"
  by code_simp

subsection \<open>The yellow heart\<close>

text \<open>
  C5, as amended. Wherever the yellow heart occurs in a text, the loop reaches it as a
  token; it then sends Escape at once, with modifier argument 0 whatever modifiers are
  pending, clears the pending modifiers, counts the key, sets \<^verbatim>\<open>had_mods\<close> and clears
  \<^verbatim>\<open>last_was_nl\<close>, so that the emission does not count as a newline.
\<close>

theorem yellow_heart_escape:
  "scan_region (pre @ yellow_heart @ post) = pre @ yellow_heart @ scan_region post
   \<and> scan_keys cpid (pre @ yellow_heart @ rest) s
       = scan_keys cpid rest
           (let s' = scan_keys cpid pre s
            in s'\<lparr>sent := sent s' @ [PlatSendKey cpid PLAT_KEY_ESCAPE 0 0],
                 keycount := keycount s' + 1,
                 had_mods := True,
                 last_was_nl := False,
                 mods := 0\<rparr>)"
proof
  show "scan_region (pre @ yellow_heart @ post) = pre @ yellow_heart @ scan_region post"
    unfolding yellow_heart_def by (rule scan_region_after_glyph) simp_all
next
  have "scan_keys cpid (pre @ yellow_heart @ rest) s
        = scan_keys cpid (yellow_heart @ rest) (scan_keys cpid pre s)"
    using scan_keys_append [of cpid pre "tl yellow_heart @ rest" s]
    by (simp add: yellow_heart_def)
  then show "scan_keys cpid (pre @ yellow_heart @ rest) s
       = scan_keys cpid rest
           (let s' = scan_keys cpid pre s
            in s'\<lparr>sent := sent s' @ [PlatSendKey cpid PLAT_KEY_ESCAPE 0 0],
                 keycount := keycount s' + 1,
                 had_mods := True,
                 last_was_nl := False,
                 mods := 0\<rparr>)"
    by (simp add: scan_keys_yellow emit_escape_def Let_def)
qed

theorem yellow_heart_escape_witness:
  "sent (scan_keys 77 (red_heart @ yellow_heart @ ''x'') scan_init)
   = [PlatSendKey 77 PLAT_KEY_ESCAPE 0 0, PlatSendKey 77 PLAT_KEY_CHAR 120 0]"
proof -
  have th: "scan_keys 77 (red_heart @ yellow_heart @ ''x'') scan_init
       = scan_keys 77 ''x''
           (let s' = scan_keys 77 red_heart scan_init
            in s'\<lparr>sent := sent s' @ [PlatSendKey 77 PLAT_KEY_ESCAPE 0 0],
                 keycount := keycount s' + 1,
                 had_mods := True,
                 last_was_nl := False,
                 mods := 0\<rparr>)"
    using yellow_heart_escape [where pre = red_heart and rest = "''x''" and cpid = 77 and s = scan_init]
    by (rule conjunct2)
  have ev: "sent (scan_keys 77 ''x''
           (let s' = scan_keys 77 red_heart scan_init
            in s'\<lparr>sent := sent s' @ [PlatSendKey 77 PLAT_KEY_ESCAPE 0 0],
                 keycount := keycount s' + 1,
                 had_mods := True,
                 last_was_nl := False,
                 mods := 0\<rparr>))
        = [PlatSendKey 77 PLAT_KEY_ESCAPE 0 0, PlatSendKey 77 PLAT_KEY_CHAR 120 0]"
    by code_simp
  show ?thesis by (simp only: th ev)
qed

text \<open>
  C5 as stated fails on the red heart followed by the yellow heart: Ctrl is pending
  when the yellow heart is reached (a letter in its place is sent with Ctrl), yet the
  Escape is sent without it.
\<close>

theorem escape_drops_pending_ctrl:
  "snd (send_keys sample_state (red_heart @ ''c'')) = [PlatRaiseWindow 77 5, PlatSendKey 77 PLAT_KEY_CHAR 99 MOD_CTRL]
   \<and> snd (send_keys sample_state (red_heart @ yellow_heart))
       = [PlatRaiseWindow 77 5, PlatSendKey 77 PLAT_KEY_ESCAPE 0 0]"
  by code_simp

subsection \<open>The purple heart\<close>

lemma sent_extends_refl: "sent_extends (sent s) s"
  by (simp add: sent_extends_def)

lemma sent_extends_mods: "sent_extends xs s \<Longrightarrow> sent_extends xs (s\<lparr>mods := m\<rparr>)"
  by (simp add: sent_extends_def)

lemma take_append_more: "take (length xs) ys = xs \<Longrightarrow> take (length xs) (ys @ zs) = xs"
  by (metis append_eq_conv_conj append_take_drop_id append.assoc)

lemma sent_extends_emit:
  "sent_extends xs s \<Longrightarrow> sent_extends xs (emit cpid special ch nl (s\<lparr>last_was_nl := b\<rparr>))"
  by (simp add: sent_extends_def emit_def take_append_more del: take_append)

lemma sent_extends_emit0:
  "sent_extends xs s \<Longrightarrow> sent_extends xs (emit cpid special ch nl s)"
  by (simp add: sent_extends_def emit_def take_append_more del: take_append)

lemma sent_extends_escape: "sent_extends xs s \<Longrightarrow> sent_extends xs (emit_escape cpid s)"
  by (simp add: sent_extends_def emit_escape_def take_append_more del: take_append)

lemma sent_extends_scan_keys: "sent_extends xs s \<Longrightarrow> sent_extends xs (scan_keys cpid p s)"
proof (induction cpid p s rule: scan_keys.induct)
  case (1 cpid p s)
  note inv = "1.prems"
  have m: "sent_extends xs (s\<lparr>mods := m\<rparr>)" for m using inv by (rule sent_extends_mods)
  have e: "sent_extends xs (emit cpid special ch nl (s\<lparr>last_was_nl := False\<rparr>))"
    for special ch nl using inv by (rule sent_extends_emit)
  have e0: "sent_extends xs (emit cpid 1 0 True s)"
    using inv by (rule sent_extends_emit0)
  have y: "sent_extends xs (emit_escape cpid s)" using inv by (rule sent_extends_escape)
  have col: "sent_extends xs (if snd (match_colored_heart p) = CHR ''Y'' then emit_escape cpid s
           else if snd (match_colored_heart p) = CHR ''B'' then s\<lparr>mods := mods s OR MOD_ALT\<rparr>
           else if snd (match_colored_heart p) = CHR ''G'' then s\<lparr>mods := mods s OR MOD_CMD\<rparr>
           else s)"
    using inv m y by simp
  show ?case
    apply (subst scan_keys.simps)
    using "1.IH" inv m e0 y col e [of 1 0 True] e [of 2 0 False] e [of 0 "0x5C" False]
      e [of 0 "of_char (hd p)" False]
    apply (simp del: One_nat_def)
    done
qed

lemma scan_keys_sent_append:
  "sent (scan_keys cpid p s) = sent s @ drop (length (sent s)) (sent (scan_keys cpid p s))"
  using sent_extends_scan_keys [OF sent_extends_refl, of s cpid p]
  by (metis append_take_drop_id sent_extends_def)

lemma scan_region_marker: "scan_region (pre @ purple_heart) = pre"
proof -
  have "ends_with_purple_heart (pre @ purple_heart)"
    by (auto simp add: ends_with_purple_heart_iff)
  then show ?thesis
    by (simp add: scan_region_def purple_heart_def)
qed

lemma send_keys_marker:
  assumes "Connected st"
  shows "snd (send_keys st (pre @ purple_heart))
         = [PlatRaiseWindow (ConnectedPid st) (ConnectedWid st)]
           @ sent (scan_keys (ConnectedPid st) pre scan_init)"
proof -
  have "ends_with_purple_heart (pre @ purple_heart)"
    by (auto simp add: ends_with_purple_heart_iff)
  then show ?thesis
    using assms by (simp add: send_keys_def Let_def scan_region_marker)
qed

lemma send_keys_inner_purple:
  assumes "Connected st" "post \<noteq> []"
  shows "take (5 + length (sent (scan_keys (ConnectedPid st) pre scan_init)))
           (snd (send_keys st (pre @ purple_heart @ post)))
         = [PlatRaiseWindow (ConnectedPid st) (ConnectedWid st)]
           @ sent (scan_keys (ConnectedPid st) pre scan_init)
           @ [PlatSendKey (ConnectedPid st) PLAT_KEY_CHAR 0xF0
                (mods (scan_keys (ConnectedPid st) pre scan_init)),
              PlatSendKey (ConnectedPid st) PLAT_KEY_CHAR 0x9F 0,
              PlatSendKey (ConnectedPid st) PLAT_KEY_CHAR 0x92 0,
              PlatSendKey (ConnectedPid st) PLAT_KEY_CHAR 0x9C 0]"
proof -
  define cpid where "cpid = ConnectedPid st"
  define s' where "s' = scan_keys cpid pre scan_init"
  define four where "four = [PlatSendKey cpid PLAT_KEY_CHAR 0xF0 (mods s'),
              PlatSendKey cpid PLAT_KEY_CHAR 0x9F 0,
              PlatSendKey cpid PLAT_KEY_CHAR 0x92 0,
              PlatSendKey cpid PLAT_KEY_CHAR 0x9C 0]"
  define s4 where "s4 = s'\<lparr>sent := sent s' @ four,
          had_mods := (had_mods s' \<or> mods s' \<noteq> 0),
          keycount := keycount s' + 4,
          last_was_nl := False,
          mods := 0\<rparr>"
  define sf where "sf = scan_keys cpid (scan_region (pre @ purple_heart @ post)) scan_init"
  have r: "scan_region (pre @ purple_heart @ post) = pre @ purple_heart @ scan_region post"
    using assms(2) unfolding purple_heart_def by (intro scan_region_after_glyph) simp_all
  have "scan_keys cpid (pre @ purple_heart @ scan_region post) scan_init
        = scan_keys cpid (purple_heart @ scan_region post) s'"
    using scan_keys_append [of cpid pre "tl purple_heart @ scan_region post" scan_init]
    by (simp add: purple_heart_def s'_def)
  then have sf: "sf = scan_keys cpid (scan_region post) s4"
    by (simp only: sf_def r scan_keys_purple s4_def four_def)
  have "sent sf = sent s4 @ drop (length (sent s4)) (sent sf)"
    unfolding sf by (rule scan_keys_sent_append)
  then obtain ys where ys: "sent sf = (sent s' @ four) @ ys"
    by (simp add: s4_def)
  have len: "length four = 4" by (simp add: four_def)
  define A where "A = [PlatRaiseWindow cpid (ConnectedWid st)] @ sent s' @ four"
  have la: "length A = 5 + length (sent s')" using len by (simp add: A_def)
  obtain tr where "snd (send_keys st (pre @ purple_heart @ post))
        = [PlatRaiseWindow cpid (ConnectedWid st)] @ sent sf @ tr"
    using assms(1) by (simp add: send_keys_def Let_def sf_def cpid_def)
  then have "snd (send_keys st (pre @ purple_heart @ post)) = A @ (ys @ tr)"
    by (simp add: ys A_def)
  then have "take (length A) (snd (send_keys st (pre @ purple_heart @ post))) = A"
    by simp
  then have "take (5 + length (sent s')) (snd (send_keys st (pre @ purple_heart @ post))) = A"
    by (simp only: la)
  then have "take (5 + length (sent s')) (snd (send_keys st (pre @ purple_heart @ post)))
        = [PlatRaiseWindow cpid (ConnectedWid st)] @ sent s' @ four"
    by (simp only: A_def)
  then show ?thesis
    by (simp only: cpid_def s'_def four_def)
qed


lemma purple_heart_scan:
  "scan_keys cpid (pre @ purple_heart @ rest) s
       = scan_keys cpid rest
           (let s' = scan_keys cpid pre s
            in s'\<lparr>sent := sent s' @ [PlatSendKey cpid PLAT_KEY_CHAR 0xF0 (mods s'),
                                     PlatSendKey cpid PLAT_KEY_CHAR 0x9F 0,
                                     PlatSendKey cpid PLAT_KEY_CHAR 0x92 0,
                                     PlatSendKey cpid PLAT_KEY_CHAR 0x9C 0],
                 had_mods := (had_mods s' \<or> mods s' \<noteq> 0),
                 keycount := keycount s' + 4,
                 last_was_nl := False,
                 mods := 0\<rparr>)"
proof -
  have "scan_keys cpid (pre @ purple_heart @ rest) s
        = scan_keys cpid (purple_heart @ rest) (scan_keys cpid pre s)"
    using scan_keys_append [of cpid pre "tl purple_heart @ rest" s]
    by (simp add: purple_heart_def)
  then show ?thesis
    by (simp only: scan_keys_purple Let_def)
qed

text \<open>
  C9. The purple heart is taken as the suppress-newline marker exactly when its four
  bytes end the text: \<open>send_keys\<close> then sends the keys of the text before it and
  nothing else, neither the marker nor a Return. Anywhere else \<open>send_keys\<close> sends,
  after the keys of the text before the heart, its four bytes as four character keys,
  the first with the pending modifiers; the loop reaches it there as four plain bytes.
\<close>

theorem purple_heart_only_at_end:
  assumes "Connected st"
  shows "(ends_with_purple_heart msg \<longleftrightarrow> (\<exists>pre. msg = pre @ purple_heart))
   \<and> snd (send_keys st (pre @ purple_heart))
       = [PlatRaiseWindow (ConnectedPid st) (ConnectedWid st)]
         @ sent (scan_keys (ConnectedPid st) pre scan_init)
   \<and> (post \<noteq> [] \<longrightarrow>
        take (5 + length (sent (scan_keys (ConnectedPid st) pre scan_init)))
          (snd (send_keys st (pre @ purple_heart @ post)))
        = [PlatRaiseWindow (ConnectedPid st) (ConnectedWid st)]
          @ sent (scan_keys (ConnectedPid st) pre scan_init)
          @ [PlatSendKey (ConnectedPid st) PLAT_KEY_CHAR 0xF0
               (mods (scan_keys (ConnectedPid st) pre scan_init)),
             PlatSendKey (ConnectedPid st) PLAT_KEY_CHAR 0x9F 0,
             PlatSendKey (ConnectedPid st) PLAT_KEY_CHAR 0x92 0,
             PlatSendKey (ConnectedPid st) PLAT_KEY_CHAR 0x9C 0])
   \<and> scan_region (pre @ purple_heart) = pre
   \<and> (post \<noteq> [] \<longrightarrow> scan_region (pre @ purple_heart @ post) = pre @ purple_heart @ scan_region post)
   \<and> scan_keys cpid (pre @ purple_heart @ rest) s
       = scan_keys cpid rest
           (let s' = scan_keys cpid pre s
            in s'\<lparr>sent := sent s' @ [PlatSendKey cpid PLAT_KEY_CHAR 0xF0 (mods s'),
                                     PlatSendKey cpid PLAT_KEY_CHAR 0x9F 0,
                                     PlatSendKey cpid PLAT_KEY_CHAR 0x92 0,
                                     PlatSendKey cpid PLAT_KEY_CHAR 0x9C 0],
                 had_mods := (had_mods s' \<or> mods s' \<noteq> 0),
                 keycount := keycount s' + 4,
                 last_was_nl := False,
                 mods := 0\<rparr>)"
proof (intro conjI impI)
  show "ends_with_purple_heart msg \<longleftrightarrow> (\<exists>pre. msg = pre @ purple_heart)"
    by (rule ends_with_purple_heart_iff)
  show "snd (send_keys st (pre @ purple_heart))
       = [PlatRaiseWindow (ConnectedPid st) (ConnectedWid st)]
         @ sent (scan_keys (ConnectedPid st) pre scan_init)"
    using assms by (rule send_keys_marker)
  show "scan_region (pre @ purple_heart) = pre"
    by (rule scan_region_marker)
  show "scan_region (pre @ purple_heart @ post) = pre @ purple_heart @ scan_region post"
    if "post \<noteq> []"
    using that unfolding purple_heart_def by (intro scan_region_after_glyph) simp_all
  show "take (5 + length (sent (scan_keys (ConnectedPid st) pre scan_init)))
          (snd (send_keys st (pre @ purple_heart @ post)))
        = [PlatRaiseWindow (ConnectedPid st) (ConnectedWid st)]
          @ sent (scan_keys (ConnectedPid st) pre scan_init)
          @ [PlatSendKey (ConnectedPid st) PLAT_KEY_CHAR 0xF0
               (mods (scan_keys (ConnectedPid st) pre scan_init)),
             PlatSendKey (ConnectedPid st) PLAT_KEY_CHAR 0x9F 0,
             PlatSendKey (ConnectedPid st) PLAT_KEY_CHAR 0x92 0,
             PlatSendKey (ConnectedPid st) PLAT_KEY_CHAR 0x9C 0]"
    if "post \<noteq> []"
    using assms that by (rule send_keys_inner_purple)
  show "scan_keys cpid (pre @ purple_heart @ rest) s
       = scan_keys cpid rest
           (let s' = scan_keys cpid pre s
            in s'\<lparr>sent := sent s' @ [PlatSendKey cpid PLAT_KEY_CHAR 0xF0 (mods s'),
                                     PlatSendKey cpid PLAT_KEY_CHAR 0x9F 0,
                                     PlatSendKey cpid PLAT_KEY_CHAR 0x92 0,
                                     PlatSendKey cpid PLAT_KEY_CHAR 0x9C 0],
                 had_mods := (had_mods s' \<or> mods s' \<noteq> 0),
                 keycount := keycount s' + 4,
                 last_was_nl := False,
                 mods := 0\<rparr>)"
    by (rule purple_heart_scan)
qed

theorem purple_heart_only_at_end_witness:
  "Connected sample_state \<and> ''b'' \<noteq> []
   \<and> snd (send_keys sample_state (''a'' @ purple_heart))
       = [PlatRaiseWindow 77 5, PlatSendKey 77 PLAT_KEY_CHAR 97 0]
   \<and> take 6 (snd (send_keys sample_state (''a'' @ purple_heart @ ''b'')))
       = [PlatRaiseWindow 77 5, PlatSendKey 77 PLAT_KEY_CHAR 97 0,
          PlatSendKey 77 PLAT_KEY_CHAR 0xF0 0, PlatSendKey 77 PLAT_KEY_CHAR 0x9F 0,
          PlatSendKey 77 PLAT_KEY_CHAR 0x92 0, PlatSendKey 77 PLAT_KEY_CHAR 0x9C 0]
   \<and> snd (send_keys sample_state (''a'' @ purple_heart @ ''b''))
       = [PlatRaiseWindow 77 5, PlatSendKey 77 PLAT_KEY_CHAR 97 0,
          PlatSendKey 77 PLAT_KEY_CHAR 0xF0 0, PlatSendKey 77 PLAT_KEY_CHAR 0x9F 0,
          PlatSendKey 77 PLAT_KEY_CHAR 0x92 0, PlatSendKey 77 PLAT_KEY_CHAR 0x9C 0,
          PlatSendKey 77 PLAT_KEY_CHAR 98 0, Usleep 50000, PlatSendKey 77 PLAT_KEY_RETURN 0 0]"
proof -
  have c: "Connected sample_state" by (simp add: sample_state_def)
  have ne: "''b'' \<noteq> []" by simp
  have p: "ConnectedPid sample_state = 77" "ConnectedWid sample_state = 5"
    by (simp_all add: sample_state_def)
  have a: "sent (scan_keys 77 ''a'' scan_init) = [PlatSendKey 77 PLAT_KEY_CHAR 97 0]"
    "mods (scan_keys 77 ''a'' scan_init) = 0"
    by code_simp+
  have sf: "scan_keys 77 (scan_region (''a'' @ purple_heart @ ''b'')) scan_init
       = \<lparr>mods = 0, keycount = 6, had_mods = False, last_was_nl = False,
          sent = [PlatSendKey 77 PLAT_KEY_CHAR 97 0,
                  PlatSendKey 77 PLAT_KEY_CHAR 0xF0 0, PlatSendKey 77 PLAT_KEY_CHAR 0x9F 0,
                  PlatSendKey 77 PLAT_KEY_CHAR 0x92 0, PlatSendKey 77 PLAT_KEY_CHAR 0x9C 0,
                  PlatSendKey 77 PLAT_KEY_CHAR 98 0]\<rparr>"
    by code_simp
  have e: "\<not> ends_with_purple_heart (''a'' @ purple_heart @ ''b'')" by code_simp
  have full: "snd (send_keys sample_state (''a'' @ purple_heart @ ''b''))
       = [PlatRaiseWindow 77 5, PlatSendKey 77 PLAT_KEY_CHAR 97 0,
          PlatSendKey 77 PLAT_KEY_CHAR 0xF0 0, PlatSendKey 77 PLAT_KEY_CHAR 0x9F 0,
          PlatSendKey 77 PLAT_KEY_CHAR 0x92 0, PlatSendKey 77 PLAT_KEY_CHAR 0x9C 0,
          PlatSendKey 77 PLAT_KEY_CHAR 98 0, Usleep 50000, PlatSendKey 77 PLAT_KEY_RETURN 0 0]"
    by (simp only: send_keys_def Let_def c p sf e) simp
  note th = purple_heart_only_at_end [OF c, where pre = "''a''" and post = "''b''"]
  have m: "snd (send_keys sample_state (''a'' @ purple_heart))
       = [PlatRaiseWindow 77 5, PlatSendKey 77 PLAT_KEY_CHAR 97 0]"
    using th [THEN conjunct2, THEN conjunct1] by (simp add: p a)
  have i: "take 6 (snd (send_keys sample_state (''a'' @ purple_heart @ ''b'')))
       = [PlatRaiseWindow 77 5, PlatSendKey 77 PLAT_KEY_CHAR 97 0,
          PlatSendKey 77 PLAT_KEY_CHAR 0xF0 0, PlatSendKey 77 PLAT_KEY_CHAR 0x9F 0,
          PlatSendKey 77 PLAT_KEY_CHAR 0x92 0, PlatSendKey 77 PLAT_KEY_CHAR 0x9C 0]"
    using th [THEN conjunct2, THEN conjunct2, THEN conjunct1, THEN mp, OF ne] by (simp add: p a)
  show ?thesis
    using c ne m i full by (simp only: simp_thms)
qed

section \<open>The access gate\<close>

subsection \<open>Which part of the handler a request of the owner reaches\<close>

lemma handle_request_weak:
  assumes "stored_owner st \<noteq> 0" "from_id br = stored_owner st" "WeakSecurity st"
  shows "handle_request e st br = dispatch e st br"
  using assms by (simp add: handle_request_def stored_owner_def split: option.splits)






lemma tick_fields [simp]:
  "Authenticated (tick st) = Authenticated st" "LastActivity (tick st) = LastActivity st"
  "WeakSecurity (tick st) = WeakSecurity st" "OtpTimeout (tick st) = OtpTimeout st"
  "Connected (tick st) = Connected st" "ConnectedWid (tick st) = ConnectedWid st"
  "ConnectedPid (tick st) = ConnectedPid st" "ConnectedOwner (tick st) = ConnectedOwner st"
  "ConnectedTitle (tick st) = ConnectedTitle st" "db (tick st) = db st"
  "DangerMode (tick st) = DangerMode st" "WindowList (tick st) = WindowList st"
  "calls (tick st) = Suc (calls st)"
  by (simp_all add: tick_def)

lemma refresh_window_list_auth:
  "Authenticated (refresh_window_list e st) = Authenticated st"
  "LastActivity (refresh_window_list e st) = LastActivity st"
  by (simp_all add: refresh_window_list_def plat_list_windows_def)

lemma build_list_message_auth:
  "Authenticated (snd (build_list_message e st)) = Authenticated st"
  "LastActivity (snd (build_list_message e st)) = LastActivity st"
  by (simp_all add: build_list_message_def Let_def refresh_window_list_auth)

lemma send_screenshot_auth:
  "Authenticated (fst (send_screenshot e st c)) = Authenticated st"
  "LastActivity (fst (send_screenshot e st c)) = LastActivity st"
  by (simp_all add: send_screenshot_def capture_connected_window_def Let_def)

lemma refresh_screenshot_auth:
  "Authenticated (fst (refresh_screenshot e st c m)) = Authenticated st"
  "LastActivity (fst (refresh_screenshot e st c m)) = LastActivity st"
  by (simp_all add: refresh_screenshot_def capture_connected_window_def Let_def)

lemma connected_window_exists_auth:
  "Authenticated (snd (connected_window_exists e st)) = Authenticated st"
  "LastActivity (snd (connected_window_exists e st)) = LastActivity st"
  by (simp_all add: connected_window_exists_def Let_def split_def)

lemma connect_window_auth:
  "Authenticated (fst (connect_window e st br)) = Authenticated st"
  "LastActivity (fst (connect_window e st br)) = LastActivity st"
  by (simp_all add: connect_window_def Let_def split_def send_screenshot_auth refresh_window_list_auth)

lemma dispatch_auth:
  "Authenticated (fst (dispatch e st br)) = Authenticated st"
  "LastActivity (fst (dispatch e st br)) = LastActivity st"
  by (simp_all add: dispatch_def Let_def split_def send_screenshot_auth refresh_screenshot_auth
      build_list_message_auth connect_window_auth connected_window_exists_auth disconnect_def)

subsection \<open>The path of an unauthenticated request\<close>





lemma stored_owner_sample:
  "stored_owner sample_state = 42" "stored_owner fresh_state = 42"
  "stored_owner stale_state = 42" "stored_owner weak_state = 42"
  by (simp_all add: stored_owner_def sample_state_def fresh_state_def stale_state_def
      weak_state_def sample_db_def kvGet_def strtoll_42)

subsection \<open>Weak security\<close>

text \<open>
  C6, as amended. With \<open>WeakSecurity\<close> set, a request of the pinned owner goes straight
  to the commands: no clock is read, no code is verified, and \<open>Authenticated\<close> and
  \<open>LastActivity\<close> are left as they are.
\<close>

theorem weak_security_skips_otp:
  assumes "WeakSecurity st" and "stored_owner st \<noteq> 0" and "from_id br = stored_owner st"
  shows "handle_request e st br = dispatch e st br
         \<and> Authenticated (fst (handle_request e st br)) = Authenticated st
         \<and> LastActivity (fst (handle_request e st br)) = LastActivity st"
  using assms handle_request_weak [of st br e] by (simp add: dispatch_auth)

theorem weak_security_skips_otp_witness:
  "WeakSecurity weak_state \<and> \<not> Authenticated weak_state
   \<and> handle_request sample_env weak_state (text_request 42 ''.help'')
       = (weak_state, [BotSendMessage 9000 build_help_message])"
proof -
  have w: "WeakSecurity weak_state" "\<not> Authenticated weak_state"
    by (simp_all add: weak_state_def sample_state_def)
  have o: "from_id (text_request 42 ''.help'') = 42" by (simp add: text_request_def)
  have d: "dispatch sample_env weak_state (text_request 42 ''.help'')
           = (weak_state, [BotSendMessage 9000 build_help_message])"
    by (simp add: dispatch_def text_request_def strcasecmp_eq_def tolower_def)
  show ?thesis
    using weak_security_skips_otp [of weak_state "text_request 42 ''.help''" sample_env]
    by (simp add: w o d stored_owner_sample)
qed

text \<open>
  C6 as stated fails for a sender who is not the pinned owner: with \<open>WeakSecurity\<close> set
  the request is still dropped, where the commands would have answered it.
\<close>

theorem weak_security_keeps_owner_filter:
  "WeakSecurity weak_state
   \<and> snd (handle_request sample_env weak_state (text_request 7 ''.help''))
       = [Printf (''Ignoring message from non-owner 7'' @ NL)]
   \<and> snd (dispatch sample_env weak_state (text_request 7 ''.help''))
       = [BotSendMessage 9000 build_help_message]"
  by code_simp


section \<open>Commands\<close>

subsection \<open>What atoi reads\<close>











subsection \<open>Accepted requests on the sample data\<close>

lemma accepted_state_fields [simp]:
  "DangerMode (accepted_state e st) = DangerMode st"
  "Connected (accepted_state e st) = Connected st"
  "ConnectedWid (accepted_state e st) = ConnectedWid st"
  "ConnectedPid (accepted_state e st) = ConnectedPid st"
  "ConnectedOwner (accepted_state e st) = ConnectedOwner st"
  "ConnectedTitle (accepted_state e st) = ConnectedTitle st"
  "db (accepted_state e st) = db st"
  by (simp_all add: accepted_state_def)

lemma refresh_window_list_fields [simp]:
  "WindowList (refresh_window_list e st) = list_windows e (calls st) (DangerMode st)"
  "Connected (refresh_window_list e st) = Connected st"
  "ConnectedWid (refresh_window_list e st) = ConnectedWid st"
  "ConnectedPid (refresh_window_list e st) = ConnectedPid st"
  "ConnectedOwner (refresh_window_list e st) = ConnectedOwner st"
  "ConnectedTitle (refresh_window_list e st) = ConnectedTitle st"
  by (simp_all add: refresh_window_list_def plat_list_windows_def)







subsection \<open>The timeout command\<close>









subsection \<open>The connect command\<close>




lemma send_screenshot_fields [simp]:
  "Connected (fst (send_screenshot e st c)) = Connected st"
  "ConnectedWid (fst (send_screenshot e st c)) = ConnectedWid st"
  "ConnectedPid (fst (send_screenshot e st c)) = ConnectedPid st"
  "ConnectedOwner (fst (send_screenshot e st c)) = ConnectedOwner st"
  "ConnectedTitle (fst (send_screenshot e st c)) = ConnectedTitle st"
  "filter is_send_key (snd (send_screenshot e st c)) = []"
  by (simp_all add: send_screenshot_def capture_connected_window_def Let_def)




section \<open>One-time codes\<close>

subsection \<open>Time steps, codes and six-digit strings\<close>











subsection \<open>When a submitted code authenticates\<close>



section \<open>Session timeout\<close>





end
